theory Spec2Isabelle
  imports Complex_Main
begin

section \<open>The declaration surface of \<^verbatim>\<open>api.d.ts\<close>\<close>

text \<open>
  The repository consists of one declaration file. It holds two declaration documents,
  one after the other: the first runs from line 1 to line 394, the second from line 395
  to line 644. Every top-level declaration of both documents is written with
  \<^verbatim>\<open>export\<close>. A declaration is an \<^verbatim>\<open>interface\<close> or a
  \<^verbatim>\<open>declare class\<close>, with an optional \<^verbatim>\<open>extends\<close> clause.
\<close>

datatype decl_kind = Interface | Class

record decl =
  name :: string
  kind :: decl_kind
  extends :: "string option"
  exported :: bool
  line :: nat

text \<open>The first document, in the order of the file.\<close>

definition api_first :: "decl list" where
  "api_first =
    [\<lparr>name = ''RodinMaterialProperties'', kind = Interface, extends = None,
        exported = True, line = 7\<rparr>,
     \<lparr>name = ''RodinMaterial'', kind = Interface, extends = None,
        exported = True, line = 18\<rparr>,
     \<lparr>name = ''RodinAsset'', kind = Interface, extends = None,
        exported = True, line = 35\<rparr>,
     \<lparr>name = ''RemoteLoader'', kind = Class, extends = Some ''Component'',
        exported = True, line = 46\<rparr>,
     \<lparr>name = ''IBloom'', kind = Interface, extends = Some ''Component'',
        exported = True, line = 129\<rparr>,
     \<lparr>name = ''IAmbientOcclusion'', kind = Interface, extends = Some ''Component'',
        exported = True, line = 151\<rparr>,
     \<lparr>name = ''Settings'', kind = Class, extends = None,
        exported = True, line = 176\<rparr>,
     \<lparr>name = ''SettingsMenu'', kind = Class, extends = Some ''Component'',
        exported = True, line = 317\<rparr>,
     \<lparr>name = ''RodinController'', kind = Class, extends = Some ''Component'',
        exported = True, line = 329\<rparr>]"

text \<open>The second document, in the order of the file.\<close>

definition api_second :: "decl list" where
  "api_second =
    [\<lparr>name = ''RodinMaterialProperties'', kind = Interface, extends = None,
        exported = True, line = 401\<rparr>,
     \<lparr>name = ''RodinMaterial'', kind = Interface, extends = None,
        exported = True, line = 411\<rparr>,
     \<lparr>name = ''RodinAsset'', kind = Interface, extends = None,
        exported = True, line = 428\<rparr>,
     \<lparr>name = ''RemoteLoader'', kind = Class, extends = Some ''Component'',
        exported = True, line = 438\<rparr>,
     \<lparr>name = ''Settings'', kind = Class, extends = Some ''Component'',
        exported = True, line = 511\<rparr>,
     \<lparr>name = ''RodinController'', kind = Class, extends = Some ''Component'',
        exported = True, line = 585\<rparr>]"

definition api :: "decl list" where
  "api = api_first @ api_second"

text \<open>The four classes the repository declares as its components.\<close>

definition component_classes :: "string list" where
  "component_classes = [''RemoteLoader'', ''Settings'', ''SettingsMenu'', ''RodinController'']"

definition classes_of :: "decl list \<Rightarrow> decl list" where
  "classes_of ds = filter (\<lambda>d. kind d = Class) ds"

text \<open>The name and the base of every declaration of a list.\<close>

definition bases :: "decl list \<Rightarrow> (string \<times> string option) list" where
  "bases ds = map (\<lambda>d. (name d, extends d)) ds"

text \<open>Every class of the list has the given base class.\<close>

definition every_class_extends :: "string \<Rightarrow> decl list \<Rightarrow> bool" where
  "every_class_extends base ds = list_all (\<lambda>d. extends d = Some base) (classes_of ds)"

text \<open>The public surface: the names of the exported declarations.\<close>

definition public_surface :: "decl list \<Rightarrow> string list" where
  "public_surface ds = map name (filter exported ds)"

section \<open>The engine's types\<close>

text \<open>
  \<^verbatim>\<open>Vec3\<close>, \<^verbatim>\<open>Node\<close> and \<^verbatim>\<open>Material\<close> are types of the host
  engine; the repository declares none of them. Each is modelled by the members that the
  documentation of the declared operations names: the three components of a vector, the
  Euler angles of a node, the name and the line width of a material. A JavaScript
  \<^verbatim>\<open>number\<close> is a \<^typ>\<open>real\<close> here; the operations below copy numbers and
  compute nothing from them.
\<close>

record Vec3 =
  x :: real
  y :: real
  z :: real

record Node =
  eulerAngles :: Vec3

record Material =
  mtl_name :: string
  lineWidth :: real

type_synonym Color = "nat \<times> nat \<times> nat \<times> nat"

section \<open>RemoteLoader\<close>

text \<open>
  The declared members \<^verbatim>\<open>materials\<close>, \<^verbatim>\<open>blankColor\<close>,
  \<^verbatim>\<open>wireColor\<close>, \<^verbatim>\<open>wireDepthBias\<close>, \<^verbatim>\<open>host\<close> and
  \<^verbatim>\<open>loading\<close> (lines 50 to 77), and \<open>currentMaterial\<close>: the name of the
  material that \<^verbatim>\<open>switchMaterial\<close> switched the loaded model to, one of
  \<^verbatim>\<open>pbr\<close>, \<^verbatim>\<open>toon\<close>, \<^verbatim>\<open>shaded\<close> and \<^verbatim>\<open>blank\<close>
  (lines 103 to 111). The declaration has no member for it: it is the state that the
  documentation of \<^verbatim>\<open>setLineWidth\<close> calls "the current material".
\<close>

record RemoteLoader =
  materials :: "Material list"
  blankColor :: Color
  wireColor :: Color
  wireDepthBias :: real
  host :: string
  loading :: bool
  currentMaterial :: string

text \<open>
  Modelled from the spec: the body of \<^verbatim>\<open>RemoteLoader.setLineWidth\<close> is not in
  the repository's files, only its declaration (lines 117 to 121 and 497 to 501), documented
  as "Set line width of the toon material, only works when the current material is toon".
  When the current material is toon the width is stored in the toon material; otherwise
  the call does nothing.
\<close>

definition setLineWidth :: "real \<Rightarrow> RemoteLoader \<Rightarrow> RemoteLoader" where
  "setLineWidth width s =
    (if currentMaterial s = ''toon''
     then s\<lparr>materials :=
       map (\<lambda>m. if mtl_name m = ''toon'' then m\<lparr>lineWidth := width\<rparr> else m) (materials s)\<rparr>
     else s)"

text \<open>A loader holding the four supported materials, with a given current material.\<close>

definition loader_with :: "string \<Rightarrow> RemoteLoader" where
  "loader_with current =
    \<lparr>materials =
       [\<lparr>mtl_name = ''pbr'', lineWidth = 0\<rparr>, \<lparr>mtl_name = ''toon'', lineWidth = 10\<rparr>,
        \<lparr>mtl_name = ''shaded'', lineWidth = 0\<rparr>, \<lparr>mtl_name = ''blank'', lineWidth = 0\<rparr>],
     blankColor = (255, 255, 255, 255), wireColor = (0, 0, 0, 255), wireDepthBias = 1 / 10000,
     host = ''https://example.org/'', loading = False, currentMaterial = current\<rparr>"

section \<open>Settings\<close>

text \<open>
  The members of \<^verbatim>\<open>Settings\<close> that are the loader or nodes of the scene
  (lines 198 to 211): \<^verbatim>\<open>loader\<close>, \<^verbatim>\<open>postProcess\<close> and
  \<^verbatim>\<open>light\<close>, "the light node to control the light direction".
\<close>

record Settings =
  loader :: RemoteLoader
  postProcess :: Node
  light :: Node

text \<open>
  Modelled from the spec: the body of the getter \<^verbatim>\<open>Settings.lightDirection\<close> is
  not in the repository's files, only its declaration (lines 220 to 224), documented as
  "The light direction in Euler angles": the Euler angles of the light node.
\<close>

definition lightDirection :: "Settings \<Rightarrow> Vec3" where
  "lightDirection s = eulerAngles (light s)"

text \<open>
  Modelled from the spec: the body of \<^verbatim>\<open>Settings.setLightDirection\<close> is not in
  the repository's files, only its declaration (lines 272 to 279 and 541 to 548), documented
  as "Set angles of directional light, suggested range x: -180 ~ 0, y: FIXED at 90, cannot
  be over written, z: 0 ~ 90". The ranges of x and z are suggested, so both are stored as
  given; y is 90 whatever the argument holds.
\<close>

definition setLightDirection :: "Vec3 \<Rightarrow> Settings \<Rightarrow> Settings" where
  "setLightDirection angles s =
    s\<lparr>light := (light s)\<lparr>eulerAngles := \<lparr>x = x angles, y = 90, z = z angles\<rparr>\<rparr>\<rparr>"

section \<open>Theorems about the declaration surface\<close>

text \<open>
  C7, as stated: every component class declared in the repository (RemoteLoader,
  Settings, SettingsMenu, RodinController) subclasses the engine's Component base.
  This fails: the declaration of Settings in the first document (line 176) is a class
  with no \<^verbatim>\<open>extends\<close> clause.
\<close>

theorem C7_counterexample:
  "name (api_first ! 6) = ''Settings'' \<and> kind (api_first ! 6) = Class
   \<and> line (api_first ! 6) = 176 \<and> extends (api_first ! 6) = None
   \<and> \<not> every_class_extends ''Component'' api"
  by (simp add: api_def api_first_def api_second_def every_class_extends_def classes_of_def)

text \<open>
  C7, amended: the classes RemoteLoader, SettingsMenu and RodinController subclass
  Component in every declaration of them; Settings subclasses Component in the second
  document only, and is declared with no base class in the first.
\<close>

theorem C7_class_bases:
  "bases (classes_of api_first) =
     [(''RemoteLoader'', Some ''Component''), (''Settings'', None),
      (''SettingsMenu'', Some ''Component''), (''RodinController'', Some ''Component'')]
   \<and> bases (classes_of api_second) =
     [(''RemoteLoader'', Some ''Component''), (''Settings'', Some ''Component''),
      (''RodinController'', Some ''Component'')]"
  by (simp add: api_first_def api_second_def classes_of_def bases_def)

text \<open>
  C8, as stated: the public surface consists of exactly the four declared components
  RemoteLoader, Settings, SettingsMenu and RodinController. This fails: the exported
  interface IBloom (line 129), itself a subtype of Component, is part of the public
  surface and is none of the four.
\<close>

theorem C8_counterexample:
  "name (api_first ! 4) = ''IBloom'' \<and> exported (api_first ! 4)
   \<and> ''IBloom'' \<in> set (public_surface api) \<and> ''IBloom'' \<notin> set component_classes
   \<and> set (public_surface api) \<noteq> set component_classes"
proof -
  have in_surface: "''IBloom'' \<in> set (public_surface api)"
    by (simp add: api_def api_first_def public_surface_def)
  have not_component: "''IBloom'' \<notin> set component_classes"
    by (simp add: component_classes_def)
  from in_surface not_component
  have "set (public_surface api) \<noteq> set component_classes"
    by blast
  moreover have "name (api_first ! 4) = ''IBloom'' \<and> exported (api_first ! 4)"
    by (simp add: api_first_def)
  ultimately show ?thesis
    using in_surface not_component by simp
qed

text \<open>
  C8, amended: the exported classes are exactly the four components RemoteLoader,
  Settings, SettingsMenu and RodinController (the second document declares them without
  SettingsMenu), and the public surface holds, besides them, the exported interfaces
  RodinMaterialProperties, RodinMaterial, RodinAsset, IBloom and IAmbientOcclusion and
  nothing else.
\<close>

theorem C8_public_surface:
  "map name (classes_of (filter exported api_first)) = component_classes
   \<and> map name (classes_of (filter exported api_second)) =
       [''RemoteLoader'', ''Settings'', ''RodinController'']
   \<and> set (map name (classes_of (filter exported api))) = set component_classes
   \<and> set (public_surface api) =
       set component_classes \<union>
       {''RodinMaterialProperties'', ''RodinMaterial'', ''RodinAsset'', ''IBloom'',
        ''IAmbientOcclusion''}"
proof -
  have first: "map name (classes_of (filter exported api_first)) = component_classes"
    by (simp add: api_first_def classes_of_def component_classes_def)
  have second: "map name (classes_of (filter exported api_second)) =
      [''RemoteLoader'', ''Settings'', ''RodinController'']"
    by (simp add: api_second_def classes_of_def)
  have both: "set (map name (classes_of (filter exported api))) = set component_classes"
    using first second
    by (auto simp add: api_def classes_of_def component_classes_def)
  have surface: "set (public_surface api) =
      set component_classes \<union>
      {''RodinMaterialProperties'', ''RodinMaterial'', ''RodinAsset'', ''IBloom'',
       ''IAmbientOcclusion''}"
    by (auto simp add: api_def api_first_def api_second_def public_surface_def
        component_classes_def)
  from first second both surface show ?thesis
    by blast
qed

section \<open>Theorems about the documented operations\<close>

text \<open>
  C3: for every Vec3 argument, after \<^verbatim>\<open>setLightDirection\<close> the y component of
  the light direction is 90, whatever the y component of the argument, and the x and z
  components are those of the argument.
\<close>

theorem C3_setLightDirection:
  "y (lightDirection (setLightDirection angles s)) = 90
   \<and> x (lightDirection (setLightDirection angles s)) = x angles
   \<and> z (lightDirection (setLightDirection angles s)) = z angles"
  by (simp add: lightDirection_def setLightDirection_def)

text \<open>
  C6: \<^verbatim>\<open>setLineWidth\<close> works only when the current material is toon. For every
  width, when the current material is not toon the loader, its materials included, is
  left as it was; when it is toon, nothing but the line width of the toon material
  changes: every other member of the loader, the number and the names of the materials
  and every material that is not toon stay as they were.
\<close>

theorem C6_setLineWidth:
  "(currentMaterial s \<noteq> ''toon'' \<longrightarrow> setLineWidth width s = s)
   \<and> (currentMaterial s = ''toon'' \<longrightarrow>
        setLineWidth width s = s\<lparr>materials := materials (setLineWidth width s)\<rparr>
        \<and> length (materials (setLineWidth width s)) = length (materials s)
        \<and> (\<forall>i < length (materials s).
             materials (setLineWidth width s) ! i =
               (if mtl_name (materials s ! i) = ''toon''
                then (materials s ! i)\<lparr>lineWidth := width\<rparr>
                else materials s ! i)))"
  by (simp add: setLineWidth_def)

theorem C6_setLineWidth_witness:
  "currentMaterial (loader_with ''pbr'') \<noteq> ''toon''
   \<and> setLineWidth 2 (loader_with ''pbr'') = loader_with ''pbr''
   \<and> currentMaterial (loader_with ''toon'') = ''toon''
   \<and> (1::nat) < length (materials (loader_with ''toon''))
   \<and> materials (setLineWidth 2 (loader_with ''toon'')) ! 1 =
       \<lparr>mtl_name = ''toon'', lineWidth = 2\<rparr>
   \<and> (0::nat) < length (materials (loader_with ''toon''))
   \<and> materials (setLineWidth 2 (loader_with ''toon'')) ! 0 =
       \<lparr>mtl_name = ''pbr'', lineWidth = 0\<rparr>"
proof -
  have not_toon: "currentMaterial (loader_with ''pbr'') \<noteq> ''toon''"
    by (simp add: loader_with_def)
  have toon: "currentMaterial (loader_with ''toon'') = ''toon''"
    by (simp add: loader_with_def)
  have size: "length (materials (loader_with ''toon'')) = 4"
    by (simp add: loader_with_def)
  from C6_setLineWidth [of "loader_with ''pbr''" 2] not_toon
  have unchanged: "setLineWidth 2 (loader_with ''pbr'') = loader_with ''pbr''"
    by blast
  from C6_setLineWidth [of "loader_with ''toon''" 2] toon
  have each: "\<forall>i < length (materials (loader_with ''toon'')).
      materials (setLineWidth 2 (loader_with ''toon'')) ! i =
        (if mtl_name (materials (loader_with ''toon'') ! i) = ''toon''
         then (materials (loader_with ''toon'') ! i)\<lparr>lineWidth := 2\<rparr>
         else materials (loader_with ''toon'') ! i)"
    by blast
  from each size
  have second: "materials (setLineWidth 2 (loader_with ''toon'')) ! 1 =
      \<lparr>mtl_name = ''toon'', lineWidth = 2\<rparr>"
    by (simp add: loader_with_def)
  from each size
  have first: "materials (setLineWidth 2 (loader_with ''toon'')) ! 0 =
      \<lparr>mtl_name = ''pbr'', lineWidth = 0\<rparr>"
    by (simp add: loader_with_def)
  from not_toon unchanged toon size second first show ?thesis
    by simp
qed

end
